theory Spec2Isabelle
  imports Main
begin

section \<open>Button.jsx: the style tables\<close>

text \<open>
  The component keeps two object literals, \<^verbatim>\<open>VARIANT_STYLES\<close> and
  \<^verbatim>\<open>SIZE_STYLES\<close>, and one string constant. An object literal is a list of
  own properties (key, string) whose prototype is \<^verbatim>\<open>Object.prototype\<close>.
\<close>

definition VARIANT_STYLES :: "(string \<times> string) list" where
  "VARIANT_STYLES =
    [(''primary'',
        ''bg-blue-600 text-white hover:bg-blue-700 focus:ring-blue-500 active:bg-blue-800''),
     (''secondary'',
        ''bg-gray-600 text-white hover:bg-gray-700 focus:ring-gray-500 active:bg-gray-800''),
     (''success'',
        ''bg-green-600 text-white hover:bg-green-700 focus:ring-green-500 active:bg-green-800''),
     (''danger'',
        ''bg-red-600 text-white hover:bg-red-700 focus:ring-red-500 active:bg-red-800''),
     (''warning'',
        ''bg-yellow-500 text-white hover:bg-yellow-600 focus:ring-yellow-400 active:bg-yellow-700''),
     (''info'',
        ''bg-cyan-600 text-white hover:bg-cyan-700 focus:ring-cyan-500 active:bg-cyan-800''),
     (''ghost'',
        ''bg-transparent border-2 border-gray-300 text-gray-700 hover:bg-gray-100 focus:ring-gray-500 active:bg-gray-200''),
     (''link'',
        ''bg-transparent text-blue-600 hover:text-blue-800 hover:underline focus:ring-blue-500 p-0''),
     (''outline'',
        ''bg-transparent border-2 border-blue-600 text-blue-600 hover:bg-blue-50 focus:ring-blue-500 active:bg-blue-100'')]"

definition SIZE_STYLES :: "(string \<times> string) list" where
  "SIZE_STYLES =
    [(''xs'', ''px-2 py-1 text-xs gap-1''),
     (''sm'', ''px-3 py-1.5 text-sm gap-1.5''),
     (''md'', ''px-4 py-2 text-base gap-2''),
     (''lg'', ''px-6 py-3 text-lg gap-2.5''),
     (''xl'', ''px-8 py-4 text-xl gap-3'')]"

definition BASE_STYLES :: string where
  "BASE_STYLES =
    ''inline-flex items-center justify-center font-medium rounded-lg transition-all duration-200 focus:outline-none focus:ring-2 focus:ring-offset-2 disabled:opacity-50 disabled:cursor-not-allowed''"

section \<open>JavaScript values in the class list\<close>

text \<open>
  What \<^verbatim>\<open>obj[key]\<close> can give on one of the two tables: \<^verbatim>\<open>undefined\<close>, an
  own string, or a member inherited from \<^verbatim>\<open>Object.prototype\<close> (a built-in
  function, named, or the prototype object itself through the \<^verbatim>\<open>__proto__\<close>
  accessor).
\<close>

datatype jsval =
    JUndefined
  | JString string
  | JFunction string
  | JObjectPrototype

definition Object_prototype :: "(string \<times> jsval) list" where
  "Object_prototype =
    [(''constructor'', JFunction ''Object''),
     (''__defineGetter__'', JFunction ''__defineGetter__''),
     (''__defineSetter__'', JFunction ''__defineSetter__''),
     (''hasOwnProperty'', JFunction ''hasOwnProperty''),
     (''__lookupGetter__'', JFunction ''__lookupGetter__''),
     (''__lookupSetter__'', JFunction ''__lookupSetter__''),
     (''isPrototypeOf'', JFunction ''isPrototypeOf''),
     (''propertyIsEnumerable'', JFunction ''propertyIsEnumerable''),
     (''toString'', JFunction ''toString''),
     (''valueOf'', JFunction ''valueOf''),
     (''toLocaleString'', JFunction ''toLocaleString''),
     (''__proto__'', JObjectPrototype)]"

text \<open>
  Property read \<^verbatim>\<open>obj[key]\<close> with a string key: an own property first, then the
  prototype chain, then \<^verbatim>\<open>undefined\<close>.
\<close>

definition get :: "(string \<times> string) list \<Rightarrow> string \<Rightarrow> jsval" where
  "get obj key =
    (case map_of obj key of
       Some s \<Rightarrow> JString s
     | None \<Rightarrow> (case map_of Object_prototype key of Some v \<Rightarrow> v | None \<Rightarrow> JUndefined))"

text \<open>\<^verbatim>\<open>Boolean(v)\<close>: the empty string and \<^verbatim>\<open>undefined\<close> are falsy, objects and
  functions are truthy.\<close>

fun Boolean :: "jsval \<Rightarrow> bool" where
  "Boolean JUndefined = False"
| "Boolean (JString s) = (s \<noteq> [])"
| "Boolean (JFunction n) = True"
| "Boolean JObjectPrototype = True"

text \<open>
  \<^verbatim>\<open>String(v)\<close>. The text of a built-in function is the one V8 prints (engines differ
  in its white space only); \<^verbatim>\<open>Object.prototype\<close> prints as every plain object.
\<close>

fun ToString :: "jsval \<Rightarrow> string" where
  "ToString JUndefined = ''undefined''"
| "ToString (JString s) = s"
| "ToString (JFunction n) = ''function '' @ n @ ''() { [native code] }''"
| "ToString JObjectPrototype = ''[object Object]''"

text \<open>\<^verbatim>\<open>Array.prototype.join\<close>: \<^verbatim>\<open>undefined\<close> elements print as the empty string,
  the separator stands between every two elements.\<close>

fun join :: "jsval list \<Rightarrow> string \<Rightarrow> string" where
  "join [] sep = []"
| "join [x] sep = (if x = JUndefined then [] else ToString x)"
| "join (x # y # ys) sep =
     (if x = JUndefined then [] else ToString x) @ sep @ join (y # ys) sep"

section \<open>The two memoised computations\<close>

text \<open>The body of the first \<^verbatim>\<open>useMemo\<close> callback (lines 98 to 107).\<close>

definition buttonClassName :: "string \<Rightarrow> string \<Rightarrow> bool \<Rightarrow> string \<Rightarrow> string" where
  "buttonClassName variant size_key fullWidth className =
    (let classes =
       [JString BASE_STYLES,
        get VARIANT_STYLES variant,
        get SIZE_STYLES size_key,
        JString (if fullWidth then ''w-full'' else []),
        JString className]
     in join (filter Boolean classes) '' '')"

text \<open>\<^verbatim>\<open>a || b\<close> on booleans: the left operand when it is truthy, else the right one.\<close>

definition js_or :: "bool \<Rightarrow> bool \<Rightarrow> bool" where
  "js_or a b = (if a then a else b)"

text \<open>The body of the second \<^verbatim>\<open>useMemo\<close> callback (line 110).\<close>

definition isDisabled :: "bool \<Rightarrow> bool \<Rightarrow> bool" where
  "isDisabled disabled loading = js_or disabled loading"

section \<open>Renderable values\<close>

text \<open>
  A \<^verbatim>\<open>React.ReactNode\<close> as far as the component looks at it: the primitives with
  their truthiness (numbers are integers or \<^verbatim>\<open>NaN\<close>, which covers both the falsy and
  the truthy ones), an element supplied by the caller (opaque, told apart by a number),
  and the two elements the component builds itself, \<^verbatim>\<open><span>{x}</span>\<close> and
  \<^verbatim>\<open><Spinner />\<close>.
\<close>

datatype node =
    NUndefined
  | NNull
  | NBoolean bool
  | NNumber int
  | NNaN
  | NString string
  | NElement nat
  | Span node
  | Spinner

fun truthy :: "node \<Rightarrow> bool" where
  "truthy NUndefined = False"
| "truthy NNull = False"
| "truthy (NBoolean b) = b"
| "truthy (NNumber n) = (n \<noteq> 0)"
| "truthy NNaN = False"
| "truthy (NString s) = (s \<noteq> [])"
| "truthy (NElement i) = True"
| "truthy (Span x) = True"
| "truthy Spinner = True"

text \<open>\<^verbatim>\<open>a && b\<close>: the left operand when it is falsy, else the right one.\<close>

definition js_and :: "node \<Rightarrow> node \<Rightarrow> node" where
  "js_and a b = (if truthy a then b else a)"

text \<open>
  The host framework renders nothing for a child that is \<^verbatim>\<open>undefined\<close>,
  \<^verbatim>\<open>null\<close> or a boolean; the slots of an element are its other children, in order
  (a number or a string, even an empty one, is a text child).
\<close>

fun ignored :: "node \<Rightarrow> bool" where
  "ignored NUndefined = True"
| "ignored NNull = True"
| "ignored (NBoolean b) = True"
| "ignored (NNumber n) = False"
| "ignored NNaN = False"
| "ignored (NString s) = False"
| "ignored (NElement i) = False"
| "ignored (Span x) = False"
| "ignored Spinner = False"

definition slots :: "node list \<Rightarrow> node list" where
  "slots ns = filter (\<lambda>n. \<not> ignored n) ns"

section \<open>The component\<close>

text \<open>
  The props object: the ten properties the parameter pattern names, typed as the
  JSDoc block types them, and every other own property in \<open>others\<close>. \<open>None\<close> (for
  a node, \<open>NUndefined\<close>) is a property that is missing or \<^verbatim>\<open>undefined\<close>.
\<close>

record 'a props =
  variant :: "string option"
  size_prop :: "string option"
  fullWidth :: "bool option"
  loading :: "bool option"
  disabled :: "bool option"
  leftIcon :: node
  rightIcon :: node
  children :: node
  className :: "string option"
  type_prop :: "string option"
  others :: "string \<rightharpoonup> 'a"

text \<open>A default in a parameter pattern applies when the property is \<^verbatim>\<open>undefined\<close>.\<close>

definition orDefault :: "'b \<Rightarrow> 'b option \<Rightarrow> 'b" where
  "orDefault d x = (case x of None \<Rightarrow> d | Some v \<Rightarrow> v)"

definition orNull :: "node \<Rightarrow> node" where
  "orNull x = (if x = NUndefined then NNull else x)"

text \<open>The rest element \<^verbatim>\<open>...props\<close> collects the own properties the pattern does not
  name.\<close>

definition named_props :: "string list" where
  "named_props =
    [''variant'', ''size'', ''fullWidth'', ''loading'', ''disabled'', ''leftIcon'',
     ''rightIcon'', ''children'', ''className'', ''type'']"

definition rest_props :: "(string \<rightharpoonup> 'a) \<Rightarrow> (string \<rightharpoonup> 'a)" where
  "rest_props m = (\<lambda>k. if k \<in> set named_props then None else m k)"

text \<open>
  \<^verbatim>\<open>useMemo(create, deps)\<close> with its cell made explicit: the cell holds the
  dependencies and the value of the last computation; equal dependencies give the
  stored value back, anything else computes and stores.
\<close>

definition useMemo :: "(unit \<Rightarrow> 'v) \<Rightarrow> 'd \<Rightarrow> ('d \<times> 'v) option \<Rightarrow> 'v \<times> ('d \<times> 'v) option" where
  "useMemo create deps cell =
    (case cell of
       None \<Rightarrow> (create (), Some (deps, create ()))
     | Some (prev, v) \<Rightarrow>
         if prev = deps then (v, cell) else (create (), Some (deps, create ())))"

record hooks =
  classNameMemo :: "((string \<times> string \<times> bool \<times> string) \<times> string) option"
  isDisabledMemo :: "((bool \<times> bool) \<times> bool) option"

definition mount :: hooks where
  "mount = \<lparr>classNameMemo = None, isDisabledMemo = None\<rparr>"

text \<open>
  The element returned: the attributes are an object built left to right, so a key
  of the spread \<^verbatim>\<open>{...props}\<close> replaces an earlier one of the same name.
\<close>

datatype 'a attr = AString string | ABoolean bool | APass 'a

record ('a, 'r) element =
  tag :: string
  ref :: 'r
  attrs :: "string \<rightharpoonup> 'a attr"
  content :: "node list"

definition Button :: "'a props \<Rightarrow> 'r \<Rightarrow> hooks \<Rightarrow> ('a, 'r) element \<times> hooks" where
  "Button p r h =
    (let v = orDefault ''primary'' (variant p);
         s = orDefault ''md'' (size_prop p);
         fw = orDefault False (fullWidth p);
         l = orDefault False (loading p);
         d = orDefault False (disabled p);
         li = orNull (leftIcon p);
         ri = orNull (rightIcon p);
         cn = orDefault [] (className p);
         t = orDefault ''button'' (type_prop p);
         rest = rest_props (others p);
         (cls, m1) = useMemo (\<lambda>_. buttonClassName v s fw cn) (v, s, fw, cn) (classNameMemo h);
         (dis, m2) = useMemo (\<lambda>_. isDisabled d l) (d, l) (isDisabledMemo h)
     in (\<lparr>tag = ''button'',
          ref = r,
          attrs =
            [''type'' \<mapsto> AString t, ''className'' \<mapsto> AString cls, ''disabled'' \<mapsto> ABoolean dis]
              ++ (\<lambda>k. map_option APass (rest k)),
          content =
            [js_and (NBoolean l) Spinner,
             js_and (js_and (NBoolean (\<not> l)) li) (Span li),
             Span (children p),
             js_and (js_and (NBoolean (\<not> l)) ri) (Span ri)]\<rparr>,
         \<lparr>classNameMemo = m1, isDisabledMemo = m2\<rparr>))"

section \<open>Predicates and sample inputs for the properties\<close>

text \<open>
  A hook state is consistent when each cell, if filled, holds the value its callback
  gives on the dependencies stored beside it. The state of a first render is
  \<open>mount\<close>, and every render keeps the property (\<open>consistent_Button\<close> and
  \<open>consistent_after\<close> below), so these are the states a render can meet.
\<close>

definition consistent :: "hooks \<Rightarrow> bool" where
  "consistent h =
    ((case classNameMemo h of
        None \<Rightarrow> True
      | Some ((v, s, fw, cn), c) \<Rightarrow> c = buttonClassName v s fw cn) \<and>
     (case isDisabledMemo h of
        None \<Rightarrow> True
      | Some ((d, l), x) \<Rightarrow> x = isDisabled d l))"

text \<open>The hook state after a sequence of renders, each with its props and its ref.\<close>

fun after :: "hooks \<Rightarrow> ('a props \<times> 'r) list \<Rightarrow> hooks" where
  "after h [] = h"
| "after h ((p, r) # ps) = after (snd (Button p r h)) ps"

text \<open>The configuration of the first example of section 8 of the specification
  (\<^verbatim>\<open>danger\<close>, \<^verbatim>\<open>lg\<close>, full width, \<^verbatim>\<open>m-2\<close>), with two icons, a label and
  two further properties.\<close>

definition example_props :: "nat props" where
  "example_props =
    \<lparr>variant = Some ''danger'', size_prop = Some ''lg'', fullWidth = Some True,
     loading = None, disabled = None, leftIcon = NElement 1, rightIcon = NElement 2,
     children = NString ''Save'', className = Some ''m-2'', type_prop = None,
     others = [''id'' \<mapsto> 7, ''title'' \<mapsto> 8]\<rparr>"

text \<open>
  What the specification asks of a style string: no two spaces in a row, no white
  space at either end, and no empty token when the string is cut at its spaces.
\<close>

fun double_space :: "string \<Rightarrow> bool" where
  "double_space (a # b # cs) = ((a = CHR '' '' \<and> b = CHR '' '') \<or> double_space (b # cs))"
| "double_space [a] = False"
| "double_space [] = False"

definition whitespace :: "char \<Rightarrow> bool" where
  "whitespace c = (c \<in> set [CHR '' '', CHR 0x09, CHR 0x0A, CHR 0x0B, CHR 0x0C, CHR 0x0D])"

definition tidy :: "string \<Rightarrow> bool" where
  "tidy s = (s \<noteq> [] \<and> \<not> whitespace (hd s) \<and> \<not> whitespace (last s) \<and> \<not> double_space s)"

fun tokens :: "string \<Rightarrow> string list" where
  "tokens [] = [[]]"
| "tokens (c # cs) =
     (if c = CHR '' '' then [] # tokens cs
      else (case tokens cs of [] \<Rightarrow> [[c]] | t # ts \<Rightarrow> (c # t) # ts))"

text \<open>
  The slot an icon gets when the button is not loading: a truthy icon is wrapped in
  its own \<^verbatim>\<open>span\<close>; a falsy one is handed to the host as it is, which renders
  nothing for \<^verbatim>\<open>null\<close>, \<^verbatim>\<open>undefined\<close> and \<^verbatim>\<open>false\<close>.
\<close>

definition icon_slot :: "node \<Rightarrow> node list" where
  "icon_slot x = (if truthy x then [Span x] else slots [x])"

text \<open>A label and nothing else, and the same with every default written out.\<close>

definition only_children :: "nat props" where
  "only_children =
    \<lparr>variant = None, size_prop = None, fullWidth = None,
     loading = None, disabled = None, leftIcon = NUndefined, rightIcon = NUndefined,
     children = NString ''Save'', className = None, type_prop = None,
     others = Map.empty\<rparr>"

definition all_defaults :: "nat props" where
  "all_defaults =
    \<lparr>variant = Some ''primary'', size_prop = Some ''md'', fullWidth = Some False,
     loading = Some False, disabled = Some False, leftIcon = NNull, rightIcon = NNull,
     children = NString ''Save'', className = Some [], type_prop = Some ''button'',
     others = Map.empty\<rparr>"

text \<open>Further properties, three of them under names of attributes the component
  computes.\<close>

definition shadowing_props :: "string \<rightharpoonup> nat" where
  "shadowing_props = [''id'' \<mapsto> 7, ''type'' \<mapsto> 1, ''className'' \<mapsto> 8, ''disabled'' \<mapsto> 9]"

section \<open>The render function and its hook state\<close>

lemma consistent_mount: "consistent mount"
  by (simp add: consistent_def mount_def)

lemma named_type:
  "''type'' \<in> set named_props"
  "''className'' \<in> set named_props"
  "''disabled'' \<in> set named_props"
  by (simp_all add: named_props_def)

lemma useMemo_consistent_fst:
  "(case cell of None \<Rightarrow> True | Some (d, v) \<Rightarrow> v = f d) \<Longrightarrow>
   fst (useMemo (\<lambda>_. f deps) deps cell) = f deps"
  by (auto simp: useMemo_def split: option.splits)

lemma useMemo_consistent_snd:
  "(case cell of None \<Rightarrow> True | Some (d, v) \<Rightarrow> v = f d) \<Longrightarrow>
   (case snd (useMemo (\<lambda>_. f deps) deps cell) of None \<Rightarrow> True | Some (d, v) \<Rightarrow> v = f d)"
  by (auto simp: useMemo_def split: option.splits)

lemma Button_attrs:
  "attrs (fst (Button p r h)) =
     [''type'' \<mapsto> AString (orDefault ''button'' (type_prop p)),
      ''className'' \<mapsto> AString (fst (useMemo
          (\<lambda>_. buttonClassName (orDefault ''primary'' (variant p)) (orDefault ''md'' (size_prop p))
             (orDefault False (fullWidth p)) (orDefault [] (className p)))
          (orDefault ''primary'' (variant p), orDefault ''md'' (size_prop p),
           orDefault False (fullWidth p), orDefault [] (className p))
          (classNameMemo h))),
      ''disabled'' \<mapsto> ABoolean (fst (useMemo
          (\<lambda>_. isDisabled (orDefault False (disabled p)) (orDefault False (loading p)))
          (orDefault False (disabled p), orDefault False (loading p))
          (isDisabledMemo h)))]
     ++ (\<lambda>k. map_option APass (rest_props (others p) k))"
  by (simp add: Button_def Let_def split_beta)

lemma Button_content:
  "content (fst (Button p r h)) =
     [js_and (NBoolean (orDefault False (loading p))) Spinner,
      js_and (js_and (NBoolean (\<not> orDefault False (loading p))) (orNull (leftIcon p)))
        (Span (orNull (leftIcon p))),
      Span (children p),
      js_and (js_and (NBoolean (\<not> orDefault False (loading p))) (orNull (rightIcon p)))
        (Span (orNull (rightIcon p)))]"
  by (simp add: Button_def Let_def split_beta)

lemma Button_disabled:
  assumes "consistent h"
  shows "attrs (fst (Button p r h)) ''disabled'' =
     Some (ABoolean (isDisabled (orDefault False (disabled p)) (orDefault False (loading p))))"
proof -
  let ?g = "\<lambda>(d, l). isDisabled d l"
  let ?deps = "(orDefault False (disabled p), orDefault False (loading p))"
  have c: "(case isDisabledMemo h of None \<Rightarrow> True | Some (d, v) \<Rightarrow> v = ?g d)"
    using assms by (auto simp: consistent_def split: option.splits)
  have "fst (useMemo (\<lambda>_. ?g ?deps) ?deps (isDisabledMemo h)) = ?g ?deps"
    by (rule useMemo_consistent_fst [OF c])
  then show ?thesis
    by (simp add: Button_attrs map_add_def rest_props_def named_type)
qed


lemma Button_hooks:
  "snd (Button p r h) =
     \<lparr>classNameMemo = snd (useMemo
          (\<lambda>_. buttonClassName (orDefault ''primary'' (variant p)) (orDefault ''md'' (size_prop p))
             (orDefault False (fullWidth p)) (orDefault [] (className p)))
          (orDefault ''primary'' (variant p), orDefault ''md'' (size_prop p),
           orDefault False (fullWidth p), orDefault [] (className p))
          (classNameMemo h)),
      isDisabledMemo = snd (useMemo
          (\<lambda>_. isDisabled (orDefault False (disabled p)) (orDefault False (loading p)))
          (orDefault False (disabled p), orDefault False (loading p))
          (isDisabledMemo h))\<rparr>"
  by (simp add: Button_def Let_def split_beta)

lemma consistent_Button:
  assumes "consistent h"
  shows "consistent (snd (Button p r h))"
proof -
  let ?f = "\<lambda>(v, s, fw, cn). buttonClassName v s fw cn"
  let ?deps = "(orDefault ''primary'' (variant p), orDefault ''md'' (size_prop p),
     orDefault False (fullWidth p), orDefault [] (className p))"
  let ?g = "\<lambda>(d, l). isDisabled d l"
  let ?deps2 = "(orDefault False (disabled p), orDefault False (loading p))"
  have c: "(case classNameMemo h of None \<Rightarrow> True | Some (d, v) \<Rightarrow> v = ?f d)"
    using assms by (auto simp: consistent_def split: option.splits)
  have d: "(case isDisabledMemo h of None \<Rightarrow> True | Some (d, v) \<Rightarrow> v = ?g d)"
    using assms by (auto simp: consistent_def split: option.splits)
  have 1: "(case snd (useMemo (\<lambda>_. ?f ?deps) ?deps (classNameMemo h)) of
              None \<Rightarrow> True | Some (d, v) \<Rightarrow> v = ?f d)"
    by (rule useMemo_consistent_snd [OF c])
  have 2: "(case snd (useMemo (\<lambda>_. ?g ?deps2) ?deps2 (isDisabledMemo h)) of
              None \<Rightarrow> True | Some (d, v) \<Rightarrow> v = ?g d)"
    by (rule useMemo_consistent_snd [OF d])
  show ?thesis
    using 1 2 by (auto simp: consistent_def Button_hooks split: option.splits)
qed

lemma consistent_after: "consistent h \<Longrightarrow> consistent (after h ps)"
  by (induction ps arbitrary: h) (auto simp: consistent_Button)

subsection \<open>The disabled flag\<close>

text \<open>
  C2. For every combination of the booleans \<open>disabled\<close> and \<open>loading\<close>, the
  \<open>disabled\<close> attribute of the element returned is their disjunction, whatever the
  other properties and whatever was rendered before: it is false when both are false
  and true in the other three cases.
\<close>

theorem disabled_is_disabled_or_loading:
  assumes "consistent h"
  shows "attrs (fst (Button (p\<lparr>disabled := Some d, loading := Some l\<rparr>) r h)) ''disabled''
           = Some (ABoolean (d \<or> l))
       \<and> isDisabled False False = False \<and> isDisabled True False = True
       \<and> isDisabled False True = True \<and> isDisabled True True = True"
  using Button_disabled [OF assms, of "p\<lparr>disabled := Some d, loading := Some l\<rparr>" r]
  by (simp add: isDisabled_def js_or_def orDefault_def)

theorem disabled_is_disabled_or_loading_witness:
  "consistent mount \<and>
   attrs (fst (Button (example_props\<lparr>disabled := Some False, loading := Some True\<rparr>) (0::nat) mount)) ''disabled''
     = Some (ABoolean True)"
  using disabled_is_disabled_or_loading
      [OF consistent_mount, where p = example_props and d = False and l = True and r = "0::nat"]
  by (simp add: consistent_mount)

section \<open>Style resolution\<close>

subsection \<open>Cutting a string at its spaces\<close>

lemma tokens_nonempty: "tokens s \<noteq> []"
  by (induction s) (auto split: list.splits)

lemma tokens_append: "tokens (a @ CHR '' '' # b) = tokens a @ tokens b"
  by (induction a) (auto split: list.splits simp: tokens_nonempty)

lemma hd_tokens_empty: "hd (tokens s) = [] \<longleftrightarrow> s = [] \<or> hd s = CHR '' ''"
  by (cases s) (auto split: list.splits)

lemma empty_token_tl:
  "[] \<in> set (tl (tokens s)) \<longleftrightarrow> (s \<noteq> [] \<and> last s = CHR '' '') \<or> double_space s"
proof (induction s)
  case Nil
  then show ?case by simp
next
  case (Cons c cs)
  have split: "[] \<in> set (tokens cs) \<longleftrightarrow> hd (tokens cs) = [] \<or> [] \<in> set (tl (tokens cs))"
    using tokens_nonempty [of cs] by (cases "tokens cs") auto
  show ?case
  proof (cases "c = CHR '' ''")
    case True
    then show ?thesis
      using Cons split hd_tokens_empty [of cs] by (cases cs) auto
  next
    case False
    then show ?thesis
      using Cons tokens_nonempty [of cs] by (cases cs; cases "tokens cs") auto
  qed
qed

lemma empty_token_iff:
  "[] \<in> set (tokens s) \<longleftrightarrow> s = [] \<or> hd s = CHR '' '' \<or> last s = CHR '' '' \<or> double_space s"
proof -
  have "[] \<in> set (tokens s) \<longleftrightarrow> hd (tokens s) = [] \<or> [] \<in> set (tl (tokens s))"
    using tokens_nonempty [of s] by (cases "tokens s") auto
  then show ?thesis
    by (auto simp: hd_tokens_empty empty_token_tl)
qed

lemma tidy_tokens: "tidy s \<Longrightarrow> [] \<notin> set (tokens s)"
  by (auto simp: empty_token_iff tidy_def whitespace_def)

lemma double_space_append:
  "a \<noteq> [] \<Longrightarrow> b \<noteq> [] \<Longrightarrow>
   double_space (a @ CHR '' '' # b) \<longleftrightarrow>
     double_space a \<or> last a = CHR '' '' \<or> hd b = CHR '' '' \<or> double_space b"
proof (induction a rule: double_space.induct)
  case (1 x y cs)
  then show ?case by auto
next
  case (2 x)
  then show ?case by (cases b) auto
qed auto

lemma tidy_append: "tidy a \<Longrightarrow> tidy b \<Longrightarrow> tidy (a @ CHR '' '' # b)"
  by (auto simp: tidy_def double_space_append whitespace_def)

lemma tidy_nonempty: "tidy s \<Longrightarrow> s \<noteq> []"
  by (simp add: tidy_def)

subsection \<open>The tables and the property read\<close>

lemma get_own: "map_of obj key = Some s \<Longrightarrow> get obj key = JString s"
  by (simp add: get_def)

lemma get_absent:
  "map_of obj key = None \<Longrightarrow> key \<notin> set (map fst Object_prototype) \<Longrightarrow> get obj key = JUndefined"
  by (simp add: get_def map_of_eq_None_iff [symmetric] del: map_of_eq_None_iff)

lemma get_tidy:
  assumes "key \<notin> set (map fst Object_prototype)"
      and "\<And>k f. map_of obj k = Some f \<Longrightarrow> tidy f"
  shows "get obj key = JUndefined \<or> (\<exists>f. get obj key = JString f \<and> tidy f)"
proof (cases "map_of obj key")
  case None
  then show ?thesis using assms(1) by (simp add: get_absent)
next
  case (Some f)
  then show ?thesis using assms(2) by (simp add: get_own)
qed

lemma tidy_BASE_STYLES: "tidy BASE_STYLES"
  by (simp add: tidy_def BASE_STYLES_def whitespace_def)

lemma tidy_VARIANT_STYLES: "map_of VARIANT_STYLES v = Some vf \<Longrightarrow> tidy vf"
  by (auto simp: VARIANT_STYLES_def tidy_def whitespace_def split: if_splits)

lemma tidy_SIZE_STYLES: "map_of SIZE_STYLES s = Some sf \<Longrightarrow> tidy sf"
  by (auto simp: SIZE_STYLES_def tidy_def whitespace_def split: if_splits)

lemma known_variant_not_inherited:
  "map_of VARIANT_STYLES v = Some vf \<Longrightarrow> v \<notin> set (map fst Object_prototype)"
  by (auto simp: VARIANT_STYLES_def Object_prototype_def split: if_splits)

lemma known_size_not_inherited:
  "map_of SIZE_STYLES s = Some sf \<Longrightarrow> s \<notin> set (map fst Object_prototype)"
  by (auto simp: SIZE_STYLES_def Object_prototype_def split: if_splits)

lemma map_of_danger:
  "map_of VARIANT_STYLES ''danger'' =
     Some ''bg-red-600 text-white hover:bg-red-700 focus:ring-red-500 active:bg-red-800''"
  by (simp add: VARIANT_STYLES_def)

lemma map_of_lg: "map_of SIZE_STYLES ''lg'' = Some ''px-6 py-3 text-lg gap-2.5''"
  by (simp add: SIZE_STYLES_def)

subsection \<open>The class string\<close>

lemma buttonClassName_known:
  assumes v: "map_of VARIANT_STYLES v = Some vf" and s: "map_of SIZE_STYLES s = Some sf"
  shows "buttonClassName v s fw cn =
     BASE_STYLES @ '' '' @ vf @ '' '' @ sf
       @ (if fw then '' w-full'' else []) @ (if cn = [] then [] else '' '' @ cn)"
proof -
  have ne: "BASE_STYLES \<noteq> []" "vf \<noteq> []" "sf \<noteq> []"
    using tidy_BASE_STYLES tidy_VARIANT_STYLES [OF v] tidy_SIZE_STYLES [OF s]
    by (auto dest: tidy_nonempty)
  show ?thesis
    by (simp add: buttonClassName_def get_own [OF v] get_own [OF s] ne)
qed

lemma buttonClassName_absent_variant:
  assumes v: "map_of VARIANT_STYLES v = None" "v \<notin> set (map fst Object_prototype)"
      and s: "map_of SIZE_STYLES s = Some sf"
  shows "buttonClassName v s fw cn =
     BASE_STYLES @ '' '' @ sf
       @ (if fw then '' w-full'' else []) @ (if cn = [] then [] else '' '' @ cn)"
proof -
  have ne: "BASE_STYLES \<noteq> []" "sf \<noteq> []"
    using tidy_BASE_STYLES tidy_SIZE_STYLES [OF s] by (auto dest: tidy_nonempty)
  show ?thesis
    by (simp add: buttonClassName_def get_absent [OF v] get_own [OF s] ne)
qed

lemma join_tidy:
  "xs \<noteq> [] \<Longrightarrow> (\<And>x. x \<in> set xs \<Longrightarrow> x \<noteq> JUndefined \<and> tidy (ToString x)) \<Longrightarrow>
   tidy (join xs '' '')"
proof (induction xs "'' ''" rule: join.induct)
  case 1
  then show ?case by simp
next
  case (2 x)
  then show ?case by simp
next
  case (3 x y ys)
  have "tidy (ToString x)" "x \<noteq> JUndefined" using 3 by auto
  moreover have "tidy (join (y # ys) '' '')" using 3 by auto
  ultimately show ?case by (simp add: tidy_append)
qed

lemma classes_tidy:
  assumes v: "v \<notin> set (map fst Object_prototype)"
      and s: "s \<notin> set (map fst Object_prototype)"
      and cn: "cn = [] \<or> tidy cn"
      and x: "x \<in> set (filter Boolean
          [JString BASE_STYLES, get VARIANT_STYLES v, get SIZE_STYLES s,
           JString (if fw then ''w-full'' else []), JString cn])"
  shows "x \<noteq> JUndefined \<and> tidy (ToString x)"
proof -
  have w: "tidy ''w-full''" by (simp add: tidy_def whitespace_def)
  have gv: "get VARIANT_STYLES v = JUndefined \<or> (\<exists>f. get VARIANT_STYLES v = JString f \<and> tidy f)"
    using v tidy_VARIANT_STYLES by (rule get_tidy)
  have gs: "get SIZE_STYLES s = JUndefined \<or> (\<exists>f. get SIZE_STYLES s = JString f \<and> tidy f)"
    using s tidy_SIZE_STYLES by (rule get_tidy)
  from x have "x \<in> set [JString BASE_STYLES, get VARIANT_STYLES v, get SIZE_STYLES s,
           JString (if fw then ''w-full'' else []), JString cn] \<and> Boolean x"
    unfolding set_filter by blast
  then have "Boolean x" and
    "x = JString BASE_STYLES \<or> x = get VARIANT_STYLES v \<or> x = get SIZE_STYLES s
       \<or> x = JString (if fw then ''w-full'' else []) \<or> x = JString cn"
    by auto
  then show ?thesis
    using gv gs cn w tidy_BASE_STYLES by (auto split: if_splits)
qed

lemma buttonClassName_tidy_general:
  assumes v: "v \<notin> set (map fst Object_prototype)"
      and s: "s \<notin> set (map fst Object_prototype)"
      and cn: "cn = [] \<or> tidy cn"
  shows "tidy (buttonClassName v s fw cn)"
proof -
  let ?classes = "[JString BASE_STYLES, get VARIANT_STYLES v, get SIZE_STYLES s,
           JString (if fw then ''w-full'' else []), JString cn]"
  have "JString BASE_STYLES \<in> set (filter Boolean ?classes)"
    using tidy_BASE_STYLES by (auto dest: tidy_nonempty)
  then have ne: "filter Boolean ?classes \<noteq> []"
    by (metis empty_iff empty_set)
  have "tidy (join (filter Boolean ?classes) '' '')"
    using ne classes_tidy [OF v s cn] by (rule join_tidy)
  then show ?thesis by (simp add: buttonClassName_def)
qed

lemma tokens_w_full: "tokens ''w-full'' = [''w-full'']"
  by simp

lemma tokens_w_full_space: "tokens (''w-full '' @ cn) = ''w-full'' # tokens cn"
  using tokens_append [of "''w-full''" cn] by (simp add: tokens_w_full del: tokens.simps)

lemma buttonClassName_tokens:
  assumes v: "map_of VARIANT_STYLES v = Some vf" and s: "map_of SIZE_STYLES s = Some sf"
  shows "tokens (buttonClassName v s fw cn) =
     tokens BASE_STYLES @ tokens vf @ tokens sf
       @ (if fw then [''w-full''] else []) @ (if cn = [] then [] else tokens cn)"
  using tokens_w_full_space [of cn]
  by (simp add: buttonClassName_known [OF v s] tokens_append tokens_w_full del: tokens.simps)

text \<open>
  C1. For a variant and a size that the two tables know, the class string is the base
  fragment, the variant fragment, the size fragment, \<^verbatim>\<open>w-full\<close> exactly when
  \<open>fullWidth\<close> is true, and the extra classes as they were given, in this order,
  with one space between two neighbours; empty extra classes add nothing, not even a
  space.
\<close>

theorem style_string_fixed_order:
  assumes "map_of VARIANT_STYLES v = Some vf" and "map_of SIZE_STYLES s = Some sf"
  shows "buttonClassName v s fw cn =
     BASE_STYLES @ '' '' @ vf @ '' '' @ sf
       @ (if fw then '' w-full'' else []) @ (if cn = [] then [] else '' '' @ cn)"
  using assms by (rule buttonClassName_known)

theorem style_string_fixed_order_witness:
  "map_of VARIANT_STYLES ''danger'' =
     Some ''bg-red-600 text-white hover:bg-red-700 focus:ring-red-500 active:bg-red-800'' \<and>
   map_of SIZE_STYLES ''lg'' = Some ''px-6 py-3 text-lg gap-2.5'' \<and>
   buttonClassName ''danger'' ''lg'' True ''m-2'' =
     BASE_STYLES @ '' bg-red-600 text-white hover:bg-red-700 focus:ring-red-500 active:bg-red-800''
       @ '' px-6 py-3 text-lg gap-2.5'' @ '' w-full'' @ '' m-2''"
  using style_string_fixed_order [OF map_of_danger map_of_lg, of True "''m-2''"]
  by (simp add: map_of_danger map_of_lg)

text \<open>
  C6, as the specification words it, fails: the extra classes are copied as they are,
  so a blank one (a single space) ends the class string with two spaces, which cut
  into empty tokens.
\<close>

theorem blank_extra_classes_counterexample:
  "double_space (buttonClassName ''primary'' ''md'' False '' '') \<and>
   whitespace (last (buttonClassName ''primary'' ''md'' False '' '')) \<and>
   [] \<in> set (tokens (buttonClassName ''primary'' ''md'' False '' ''))"
proof -
  have r: "buttonClassName ''primary'' ''md'' False '' '' =
      (BASE_STYLES @ '' bg-blue-600 text-white hover:bg-blue-700 focus:ring-blue-500 active:bg-blue-800 px-4 py-2 text-base gap-2'') @ ''  ''"
    by (simp add: buttonClassName_def get_def VARIANT_STYLES_def SIZE_STYLES_def BASE_STYLES_def)
  have d: "\<And>a. double_space (a @ ''  '')"
  proof -
    fix a show "double_space (a @ ''  '')"
      by (induction a rule: double_space.induct) auto
  qed
  show ?thesis
    unfolding r using d by (simp add: empty_token_iff whitespace_def del: append_assoc)
qed

text \<open>
  C6, amended. Let the variant and the size be no property name inherited from
  \<^verbatim>\<open>Object.prototype\<close> (no known variant or size is one, by the two lemmas
  above), and the extra classes be empty or tidy themselves. Then
  the class string is tidy (no two spaces in a row, no white space at either end) and
  cuts into no empty token; for a known variant and size its tokens are those of the
  base, the variant and the size fragment, then \<^verbatim>\<open>w-full\<close> if asked for, then
  those of the extra classes; for a variant that names nothing the variant fragment
  is left out, with one space where it would have stood.
\<close>

theorem style_string_tidy:
  assumes "v \<notin> set (map fst Object_prototype)" and "s \<notin> set (map fst Object_prototype)"
      and "cn = [] \<or> tidy cn"
  shows "tidy (buttonClassName v s fw cn) \<and>
     [] \<notin> set (tokens (buttonClassName v s fw cn)) \<and>
     (map_of VARIANT_STYLES v = Some vf \<longrightarrow> map_of SIZE_STYLES s = Some sf \<longrightarrow>
        tokens (buttonClassName v s fw cn) =
          tokens BASE_STYLES @ tokens vf @ tokens sf
            @ (if fw then [''w-full''] else []) @ (if cn = [] then [] else tokens cn)) \<and>
     (map_of VARIANT_STYLES v = None \<longrightarrow> map_of SIZE_STYLES s = Some sf \<longrightarrow>
        buttonClassName v s fw cn =
          BASE_STYLES @ '' '' @ sf
            @ (if fw then '' w-full'' else []) @ (if cn = [] then [] else '' '' @ cn))"
  using buttonClassName_tidy_general [OF assms] assms(1)
  by (auto simp: tidy_tokens buttonClassName_tokens buttonClassName_absent_variant
      simp del: tokens.simps)

theorem style_string_tidy_witness:
  "''unknown-value'' \<notin> set (map fst Object_prototype) \<and>
   ''md'' \<notin> set (map fst Object_prototype) \<and>
   tidy ''m-2 p-1'' \<and>
   tidy (buttonClassName ''unknown-value'' ''md'' True ''m-2 p-1'') \<and>
   buttonClassName ''unknown-value'' ''md'' True ''m-2 p-1'' =
     BASE_STYLES @ '' px-4 py-2 text-base gap-2 w-full m-2 p-1''"
proof -
  have v: "''unknown-value'' \<notin> set (map fst Object_prototype)"
   and s: "''md'' \<notin> set (map fst Object_prototype)"
    by (simp_all add: Object_prototype_def)
  have c: "tidy ''m-2 p-1''"
    by (simp add: tidy_def whitespace_def)
  then have cn: "''m-2 p-1'' = [] \<or> tidy ''m-2 p-1''" ..
  have a: "map_of VARIANT_STYLES ''unknown-value'' = None"
    by (simp add: VARIANT_STYLES_def)
  have b: "map_of SIZE_STYLES ''md'' = Some ''px-4 py-2 text-base gap-2''"
    by (simp add: SIZE_STYLES_def)
  note t = style_string_tidy [OF v s cn, of True undefined "''px-4 py-2 text-base gap-2''"]
  have 1: "tidy (buttonClassName ''unknown-value'' ''md'' True ''m-2 p-1'')"
    using t by (rule conjunct1)
  have 2: "buttonClassName ''unknown-value'' ''md'' True ''m-2 p-1'' =
     BASE_STYLES @ '' px-4 py-2 text-base gap-2 w-full m-2 p-1''"
    using t [THEN conjunct2, THEN conjunct2, THEN conjunct2, THEN mp, OF a, THEN mp, OF b]
    by simp
  show ?thesis
    using v s c 1 2 by (intro conjI)
qed

text \<open>
  C7 at \<^verbatim>\<open>variant = "constructor"\<close>, which is none of the nine variants: the read
  \<^verbatim>\<open>VARIANT_STYLES["constructor"]\<close> finds the function that every object inherits,
  the filter keeps it, and its source text becomes part of the class string. The
  fragment is not absent.
\<close>

theorem inherited_key_is_a_fragment:
  "map_of VARIANT_STYLES ''constructor'' = None \<and>
   buttonClassName ''constructor'' ''md'' False [] =
     BASE_STYLES @ '' function Object() { [native code] } px-4 py-2 text-base gap-2'' \<and>
   buttonClassName ''constructor'' ''md'' False [] \<noteq> BASE_STYLES @ '' px-4 py-2 text-base gap-2''"
  by (simp add: buttonClassName_def get_def VARIANT_STYLES_def SIZE_STYLES_def
      Object_prototype_def BASE_STYLES_def)

section \<open>What is rendered inside the button\<close>

lemma content_loading:
  "orDefault False (loading p) \<Longrightarrow>
   content (fst (Button p r h)) = [Spinner, NBoolean False, Span (children p), NBoolean False]"
  by (simp add: Button_content js_and_def)

lemma content_not_loading:
  "\<not> orDefault False (loading p) \<Longrightarrow>
   slots (content (fst (Button p r h))) =
     icon_slot (orNull (leftIcon p)) @ [Span (children p)] @ icon_slot (orNull (rightIcon p))"
  by (simp add: Button_content js_and_def slots_def icon_slot_def)

text \<open>
  C3, as the specification words it, fails: the label is rendered whether the button
  is loading or not, so a loading button shows the spinner and then the label, not
  the spinner alone.
\<close>

theorem loading_keeps_children_counterexample:
  "slots (content (fst (Button (example_props\<lparr>loading := Some True\<rparr>) (0::nat) mount)))
     = [Spinner, Span (NString ''Save'')] \<and>
   slots (content (fst (Button (example_props\<lparr>loading := Some True\<rparr>) (0::nat) mount)))
     \<noteq> [Spinner]"
  by (simp add: content_loading orDefault_def example_props_def slots_def)

text \<open>
  C3, amended. The slots of the button are the spinner followed by the label when
  \<open>loading\<close> is true, and otherwise the left icon's slot (if any), the label, and
  the right icon's slot (if any).
\<close>

theorem composed_content:
  "slots (content (fst (Button p r h))) =
     (if orDefault False (loading p) then [Spinner, Span (children p)]
      else icon_slot (orNull (leftIcon p)) @ [Span (children p)] @ icon_slot (orNull (rightIcon p)))"
  by (simp add: content_loading content_not_loading) (simp add: slots_def)

theorem composed_content_witness:
  "slots (content (fst (Button (example_props\<lparr>loading := Some True\<rparr>) (0::nat) mount)))
     = [Spinner, Span (NString ''Save'')] \<and>
   slots (content (fst (Button (example_props\<lparr>leftIcon := NNull, rightIcon := NNumber 0\<rparr>) (0::nat) mount)))
     = [Span (NString ''Save''), NNumber 0]"
  using composed_content [of "example_props\<lparr>loading := Some True\<rparr>" "0::nat" mount]
    composed_content [of "example_props\<lparr>leftIcon := NNull, rightIcon := NNumber 0\<rparr>" "0::nat" mount]
  by (simp add: example_props_def orDefault_def orNull_def icon_slot_def slots_def)

text \<open>
  C4. While \<open>loading\<close> is true the children of the button are the spinner,
  \<^verbatim>\<open>false\<close>, the label and \<^verbatim>\<open>false\<close>, whatever the two icons are: neither
  icon reaches the output.
\<close>

theorem loading_suppresses_icons:
  assumes "loading p = Some True"
  shows "content (fst (Button (p\<lparr>leftIcon := a, rightIcon := b\<rparr>) r h))
           = [Spinner, NBoolean False, Span (children p), NBoolean False]
       \<and> slots (content (fst (Button (p\<lparr>leftIcon := a, rightIcon := b\<rparr>) r h)))
           = [Spinner, Span (children p)]"
  using assms by (simp add: content_loading orDefault_def slots_def)

theorem loading_suppresses_icons_witness:
  "loading (example_props\<lparr>loading := Some True\<rparr>) = Some True \<and>
   content (fst (Button
       (example_props\<lparr>loading := Some True, leftIcon := NString ''<'', rightIcon := NNumber 0\<rparr>)
       (0::nat) mount))
     = [Spinner, NBoolean False, Span (NString ''Save''), NBoolean False] \<and>
   slots (content (fst (Button
       (example_props\<lparr>loading := Some True, leftIcon := NString ''<'', rightIcon := NNumber 0\<rparr>)
       (0::nat) mount)))
     = [Spinner, Span (NString ''Save'')]"
  using loading_suppresses_icons
      [where p = "example_props\<lparr>loading := Some True\<rparr>" and a = "NString ''<''"
         and b = "NNumber 0" and r = "0::nat" and h = mount]
  by (simp add: example_props_def slots_def)

text \<open>
  C5. When \<open>loading\<close> is false or missing and both icons are present (truthy, which
  is what the component tests), the slots are the left icon, the label and the right
  icon, in this order.
\<close>

theorem icons_around_children:
  assumes "orDefault False (loading p) = False"
      and "truthy (leftIcon p)" and "truthy (rightIcon p)"
  shows "slots (content (fst (Button p r h)))
           = [Span (leftIcon p), Span (children p), Span (rightIcon p)]"
proof -
  have "orNull (leftIcon p) = leftIcon p" "orNull (rightIcon p) = rightIcon p"
    using assms by (auto simp: orNull_def)
  then show ?thesis
    using assms by (simp add: content_not_loading icon_slot_def)
qed

theorem icons_around_children_witness:
  "orDefault False (loading example_props) = False \<and>
   truthy (leftIcon example_props) \<and> truthy (rightIcon example_props) \<and>
   slots (content (fst (Button example_props (0::nat) mount)))
     = [Span (NElement 1), Span (NString ''Save''), Span (NElement 2)]"
  using icons_around_children [of example_props "0::nat" mount]
  by (simp add: example_props_def orDefault_def)

section \<open>Defaults\<close>

text \<open>
  C8. A missing property behaves as its default written out: \<^verbatim>\<open>primary\<close>,
  \<^verbatim>\<open>md\<close>, \<^verbatim>\<open>false\<close> for the three flags, \<^verbatim>\<open>null\<close> for the two icons, the
  empty string for the extra classes and \<^verbatim>\<open>button\<close> for the type. The element and
  the hook state are the same, one property at a time and for all of them at once.
\<close>

theorem defaults_applied:
  "Button (p\<lparr>variant := None\<rparr>) r h = Button (p\<lparr>variant := Some ''primary''\<rparr>) r h \<and>
   Button (p\<lparr>size_prop := None\<rparr>) r h = Button (p\<lparr>size_prop := Some ''md''\<rparr>) r h \<and>
   Button (p\<lparr>fullWidth := None\<rparr>) r h = Button (p\<lparr>fullWidth := Some False\<rparr>) r h \<and>
   Button (p\<lparr>loading := None\<rparr>) r h = Button (p\<lparr>loading := Some False\<rparr>) r h \<and>
   Button (p\<lparr>disabled := None\<rparr>) r h = Button (p\<lparr>disabled := Some False\<rparr>) r h \<and>
   Button (p\<lparr>leftIcon := NUndefined\<rparr>) r h = Button (p\<lparr>leftIcon := NNull\<rparr>) r h \<and>
   Button (p\<lparr>rightIcon := NUndefined\<rparr>) r h = Button (p\<lparr>rightIcon := NNull\<rparr>) r h \<and>
   Button (p\<lparr>className := None\<rparr>) r h = Button (p\<lparr>className := Some []\<rparr>) r h \<and>
   Button (p\<lparr>type_prop := None\<rparr>) r h = Button (p\<lparr>type_prop := Some ''button''\<rparr>) r h \<and>
   Button
     \<lparr>variant = None, size_prop = None, fullWidth = None, loading = None, disabled = None,
      leftIcon = NUndefined, rightIcon = NUndefined, children = c, className = None,
      type_prop = None, others = m\<rparr> r h =
   Button
     \<lparr>variant = Some ''primary'', size_prop = Some ''md'', fullWidth = Some False,
      loading = Some False, disabled = Some False, leftIcon = NNull, rightIcon = NNull,
      children = c, className = Some [], type_prop = Some ''button'', others = m\<rparr> r h"
  by (simp add: Button_def orDefault_def orNull_def)

theorem defaults_applied_witness:
  "Button only_children (0::nat) mount = Button all_defaults (0::nat) mount"
  using defaults_applied [where p = all_defaults and c = "NString ''Save''"
      and m = "Map.empty :: string \<rightharpoonup> nat" and r = "0::nat" and h = mount]
  unfolding only_children_def all_defaults_def by blast

section \<open>Determinism of the class string\<close>





section \<open>Properties passed through\<close>

lemma Button_forwards:
  "k \<notin> set named_props \<Longrightarrow> attrs (fst (Button p r h)) k = map_option APass (others p k)"
  by (auto simp: Button_attrs map_add_def rest_props_def named_props_def split: option.splits)

lemma Button_type:
  "attrs (fst (Button p r h)) ''type'' = Some (AString (orDefault ''button'' (type_prop p)))"
  by (simp add: Button_attrs map_add_def rest_props_def named_type)

lemma Button_others:
  assumes "k \<in> set named_props"
  shows "attrs (fst (Button (p\<lparr>others := m\<rparr>) r h)) k
       = attrs (fst (Button (p\<lparr>others := m'\<rparr>) r h)) k"
  using assms by (simp add: Button_attrs map_add_def rest_props_def)

text \<open>
  C10. The rest element takes no property that the parameter pattern names, so the
  spread cannot replace \<open>type\<close>, \<open>className\<close> or \<open>disabled\<close>: two renders that
  differ in their further properties only agree on these three attributes (and on
  the children and the hook state).
\<close>

theorem passthrough_cannot_override:
  "attrs (fst (Button (p\<lparr>others := m\<rparr>) r h)) ''type''
     = attrs (fst (Button (p\<lparr>others := m'\<rparr>) r h)) ''type'' \<and>
   attrs (fst (Button (p\<lparr>others := m\<rparr>) r h)) ''className''
     = attrs (fst (Button (p\<lparr>others := m'\<rparr>) r h)) ''className'' \<and>
   attrs (fst (Button (p\<lparr>others := m\<rparr>) r h)) ''disabled''
     = attrs (fst (Button (p\<lparr>others := m'\<rparr>) r h)) ''disabled'' \<and>
   attrs (fst (Button (p\<lparr>others := m\<rparr>) r h)) ''type''
     = Some (AString (orDefault ''button'' (type_prop p))) \<and>
   content (fst (Button (p\<lparr>others := m\<rparr>) r h)) = content (fst (Button (p\<lparr>others := m'\<rparr>) r h)) \<and>
   snd (Button (p\<lparr>others := m\<rparr>) r h) = snd (Button (p\<lparr>others := m'\<rparr>) r h)"
  using Button_others [where p = p and m = m and m' = m' and r = r and h = h]
  by (simp add: named_type Button_type Button_content Button_hooks)

theorem passthrough_cannot_override_witness:
  "attrs (fst (Button (example_props\<lparr>others := shadowing_props\<rparr>) (0::nat) mount)) ''type''
     = Some (AString ''button'') \<and>
   attrs (fst (Button (example_props\<lparr>others := shadowing_props\<rparr>) (0::nat) mount)) ''disabled''
     = Some (ABoolean False) \<and>
   attrs (fst (Button (example_props\<lparr>others := shadowing_props\<rparr>) (0::nat) mount)) ''className''
     = attrs (fst (Button (example_props\<lparr>others := Map.empty\<rparr>) (0::nat) mount)) ''className'' \<and>
   attrs (fst (Button (example_props\<lparr>others := shadowing_props\<rparr>) (0::nat) mount)) ''id''
     = Some (APass 7)"
proof -
  note t = passthrough_cannot_override
    [where p = example_props and m = shadowing_props and m' = Map.empty and r = "0::nat" and h = mount]
  have id: "''id'' \<notin> set named_props" by (simp add: named_props_def)
  have d: "attrs (fst (Button (example_props\<lparr>others := Map.empty\<rparr>) (0::nat) mount)) ''disabled''
      = Some (ABoolean False)"
    using Button_disabled [OF consistent_mount, of "example_props\<lparr>others := Map.empty\<rparr>" "0::nat"]
    by (simp add: example_props_def isDisabled_def js_or_def orDefault_def)
  have ty: "attrs (fst (Button (example_props\<lparr>others := shadowing_props\<rparr>) (0::nat) mount)) ''type''
      = Some (AString ''button'')"
    using t [THEN conjunct2, THEN conjunct2, THEN conjunct2, THEN conjunct1]
    by (simp add: example_props_def orDefault_def)
  have di: "attrs (fst (Button (example_props\<lparr>others := shadowing_props\<rparr>) (0::nat) mount)) ''disabled''
      = Some (ABoolean False)"
    using t [THEN conjunct2, THEN conjunct2, THEN conjunct1] d by simp
  have cl: "attrs (fst (Button (example_props\<lparr>others := shadowing_props\<rparr>) (0::nat) mount)) ''className''
     = attrs (fst (Button (example_props\<lparr>others := Map.empty\<rparr>) (0::nat) mount)) ''className''"
    using t [THEN conjunct2, THEN conjunct1] .
  have fw: "attrs (fst (Button (example_props\<lparr>others := shadowing_props\<rparr>) (0::nat) mount)) ''id''
     = Some (APass 7)"
    using Button_forwards [OF id, of "example_props\<lparr>others := shadowing_props\<rparr>" "0::nat" mount]
    by (simp add: shadowing_props_def)
  show ?thesis
    using ty di cl fw by (intro conjI)
qed


end
